theory Spec2Isabelle
  imports Main "HOL-Library.Word"
begin

section \<open>Python values used by \<^verbatim>\<open>main.py\<close>\<close>

text \<open>
  A Python \<^verbatim>\<open>str\<close> is a sequence of Unicode code points, and \<^verbatim>\<open>len\<close> counts code
  points. A string of the submission is therefore a list of code points (natural numbers),
  not a list of bytes. String literals of the source are ASCII; \<open>ascii\<close> turns such a
  literal into its code points.
\<close>

type_synonym pystr = "nat list"

definition ascii :: "string \<Rightarrow> pystr" where
  "ascii s = map of_char s"

text \<open>
  \<^verbatim>\<open>str.isspace\<close> on one code point: the code points CPython classifies as whitespace.
\<close>

definition isspace :: "nat \<Rightarrow> bool" where
  "isspace c =
     ((9 \<le> c \<and> c \<le> 13) \<or> (28 \<le> c \<and> c \<le> 32) \<or> c = 133 \<or> c = 160 \<or> c = 5760
      \<or> (8192 \<le> c \<and> c \<le> 8202) \<or> c = 8232 \<or> c = 8233 \<or> c = 8239 \<or> c = 8287
      \<or> c = 12288)"

text \<open>\<^verbatim>\<open>s.strip()\<close>: leading and trailing whitespace removed.\<close>

definition strip :: "pystr \<Rightarrow> pystr" where
  "strip s = rev (dropWhile isspace (rev (dropWhile isspace s)))"

text \<open>
  Truthiness of an optional string (\<^verbatim>\<open>str | None\<close>): \<^verbatim>\<open>None\<close> and the empty string
  are falsy.
\<close>

fun truthy :: "pystr option \<Rightarrow> bool" where
  "truthy None = False"
| "truthy (Some s) = (s \<noteq> [])"

text \<open>\<^verbatim>\<open>x or default\<close> on an optional string.\<close>

fun or_else :: "pystr option \<Rightarrow> pystr option \<Rightarrow> pystr option" where
  "or_else x y = (if truthy x then x else y)"

text \<open>
  The exceptions the program raises or receives. \<open>HTTPException\<close> carries
  \<^verbatim>\<open>status_code\<close> and \<^verbatim>\<open>detail\<close>. In pymongo \<^verbatim>\<open>ConnectionFailure\<close> is a subclass of
  \<^verbatim>\<open>PyMongoError\<close>; \<open>RetryError\<close> is what tenacity raises when a retry budget is
  exhausted (it wraps the last exception); \<open>Exception\<close> stands for any other exception.
\<close>

datatype exn =
    HTTPException nat string
  | PyMongoError string
  | ConnectionFailure string
  | RetryError exn
  | KeyError string
  | Exception string

fun isinstance_HTTPException :: "exn \<Rightarrow> bool" where
  "isinstance_HTTPException (HTTPException _ _) = True"
| "isinstance_HTTPException _ = False"


fun isinstance_PyMongoError :: "exn \<Rightarrow> bool" where
  "isinstance_PyMongoError (PyMongoError _) = True"
| "isinstance_PyMongoError (ConnectionFailure _) = True"
| "isinstance_PyMongoError _ = False"

fun isinstance_Exception :: "exn \<Rightarrow> bool" where
  "isinstance_Exception _ = True"


section \<open>The request models\<close>

text \<open>
  The three pydantic models. Besides its field values a pydantic model carries the set of
  fields the client supplied (\<^verbatim>\<open>model_fields_set\<close>); only \<open>ProjectDetails\<close> is dumped
  with \<^verbatim>\<open>exclude_unset=True\<close>, so only there the set is kept. \<^verbatim>\<open>EmailStr\<close> values are
  strings.
\<close>

record ProjectDetails =
  clientType :: "pystr option"
  clientName :: "pystr option"
  companyName :: "pystr option"
  projectType :: "pystr option"
  budget :: "pystr option"
  timeline :: "pystr option"
  requirements :: "pystr option"
  contactEmail :: pystr
  model_fields_set :: "string set"

record HiringDetails =
  clientType :: pystr
  companyName :: pystr
  positionTitle :: pystr
  budget :: pystr
  timeline :: pystr
  requirements :: pystr
  contactEmail :: pystr

record ContactDetails =
  name :: pystr
  email :: pystr
  message :: pystr


section \<open>Validation\<close>

definition validate_project_details :: "ProjectDetails \<Rightarrow> exn + unit" where
  "validate_project_details details =
     (if ProjectDetails.contactEmail details = [] then
        Inl (HTTPException 400 ''Contact email is required'')
      else if truthy (ProjectDetails.clientType details)
            \<and> ProjectDetails.clientType details
                \<notin> set [Some (ascii ''company''), Some (ascii ''individual'')] then
        Inl (HTTPException 400 ''Invalid client type'')
      else if ProjectDetails.clientType details = Some (ascii ''company'')
            \<and> \<not> truthy (ProjectDetails.companyName details) then
        Inl (HTTPException 400 ''Company name is required for company client type'')
      else if ProjectDetails.clientType details = Some (ascii ''individual'')
            \<and> \<not> truthy (ProjectDetails.clientName details) then
        Inl (HTTPException 400 ''Client name is required for individual client type'')
      else Inr ())"

definition validate_hiring_details :: "HiringDetails \<Rightarrow> exn + unit" where
  "validate_hiring_details details =
     (if HiringDetails.clientType details \<noteq> ascii ''company'' then
        Inl (HTTPException 400 ''Client type must be 'company' for hiring requests'')
      else if strip (HiringDetails.companyName details) = [] then
        Inl (HTTPException 400 ''Company name is required'')
      else if strip (positionTitle details) = [] then
        Inl (HTTPException 400 ''Position title is required'')
      else if strip (HiringDetails.budget details) = [] then
        Inl (HTTPException 400 ''Budget is required'')
      else if strip (HiringDetails.timeline details) = [] then
        Inl (HTTPException 400 ''Timeline is required'')
      else if strip (HiringDetails.requirements details) = [] then
        Inl (HTTPException 400 ''Requirements are required'')
      else if HiringDetails.contactEmail details = [] then
        Inl (HTTPException 400 ''Contact email is required'')
      else Inr ())"

definition validate_contact_details :: "ContactDetails \<Rightarrow> exn + unit" where
  "validate_contact_details details =
     (if strip (name details) = [] then
        Inl (HTTPException 400 ''Name is required'')
      else if strip (message details) = [] then
        Inl (HTTPException 400 ''Message is required'')
      else if length (message details) > 1000 then
        Inl (HTTPException 400 ''Message cannot exceed 1000 characters'')
      else Inr ())"


section \<open>Clock, identifiers and documents\<close>

datatype tzinfo = utc

record datetime =
  year :: nat
  month :: nat
  day :: nat
  hour :: nat
  minute :: nat
  second :: nat
  microsecond :: nat
  tzinfo :: "tzinfo option"

text \<open>\<^verbatim>\<open>datetime.now(tz)\<close>: the reading of the clock, made aware of the time zone.\<close>

definition datetime_now :: "tzinfo \<Rightarrow> datetime \<Rightarrow> datetime" where
  "datetime_now tz reading = reading\<lparr>tzinfo := Some tz\<rparr>"

fun zero_padded :: "nat \<Rightarrow> nat \<Rightarrow> pystr" where
  "zero_padded 0 n = []"
| "zero_padded (Suc k) n = zero_padded k (n div 10) @ [48 + n mod 10]"

text \<open>\<^verbatim>\<open>strftime('%Y-%m-%d %H:%M:%S')\<close> (years of four digits).\<close>

definition strftime :: "datetime \<Rightarrow> pystr" where
  "strftime dt =
     zero_padded 4 (year dt) @ ascii ''-'' @ zero_padded 2 (month dt) @ ascii ''-''
     @ zero_padded 2 (day dt) @ ascii '' '' @ zero_padded 2 (hour dt) @ ascii '':''
     @ zero_padded 2 (minute dt) @ ascii '':'' @ zero_padded 2 (second dt)"

text \<open>
  A UUID is a 128-bit number; \<^verbatim>\<open>str(uuid)\<close> is its 32 lower-case hexadecimal digits
  (\<^verbatim>\<open>'%032x' % self.int\<close>) in groups of 8, 4, 4, 4 and 12 separated by dashes.
\<close>

type_synonym UUID = "128 word"

definition hexdigit :: "nat \<Rightarrow> nat" where
  "hexdigit d = (if d < 10 then 48 + d else 87 + d)"

definition hex32 :: "UUID \<Rightarrow> pystr" where
  "hex32 u = map (\<lambda>i. hexdigit ((unat u div 16 ^ (31 - i)) mod 16)) [0..<32]"

definition str_UUID :: "UUID \<Rightarrow> pystr" where
  "str_UUID u =
     (let hex = hex32 u in
      take 8 hex @ ascii ''-'' @ take 4 (drop 8 hex) @ ascii ''-'' @ take 4 (drop 12 hex)
      @ ascii ''-'' @ take 4 (drop 16 hex) @ ascii ''-'' @ drop 20 hex)"

text \<open>
  A document is a Python dict from field names to values; the values that occur are
  \<^verbatim>\<open>None\<close>, strings and datetimes.
\<close>

datatype pyvalue = PyNone | PyStr pystr | PyDatetime datetime

type_synonym document = "string \<rightharpoonup> pyvalue"

fun opt_value :: "pystr option \<Rightarrow> pyvalue" where
  "opt_value None = PyNone"
| "opt_value (Some s) = PyStr s"

text \<open>
  \<^verbatim>\<open>details.model_dump(exclude_unset=True)\<close> for a project request: only the fields the
  client supplied. \<^verbatim>\<open>details.model_dump()\<close> for the other two: every field.
\<close>

definition model_dump_exclude_unset :: "ProjectDetails \<Rightarrow> document" where
  "model_dump_exclude_unset details =
     [''clientType'' \<mapsto> opt_value (ProjectDetails.clientType details),
      ''clientName'' \<mapsto> opt_value (clientName details),
      ''companyName'' \<mapsto> opt_value (ProjectDetails.companyName details),
      ''projectType'' \<mapsto> opt_value (projectType details),
      ''budget'' \<mapsto> opt_value (ProjectDetails.budget details),
      ''timeline'' \<mapsto> opt_value (ProjectDetails.timeline details),
      ''requirements'' \<mapsto> opt_value (ProjectDetails.requirements details),
      ''contactEmail'' \<mapsto> PyStr (ProjectDetails.contactEmail details)]
     |` model_fields_set details"

definition model_dump_hiring :: "HiringDetails \<Rightarrow> document" where
  "model_dump_hiring details =
     [''clientType'' \<mapsto> PyStr (HiringDetails.clientType details),
      ''companyName'' \<mapsto> PyStr (HiringDetails.companyName details),
      ''positionTitle'' \<mapsto> PyStr (positionTitle details),
      ''budget'' \<mapsto> PyStr (HiringDetails.budget details),
      ''timeline'' \<mapsto> PyStr (HiringDetails.timeline details),
      ''requirements'' \<mapsto> PyStr (HiringDetails.requirements details),
      ''contactEmail'' \<mapsto> PyStr (HiringDetails.contactEmail details)]"

definition model_dump_contact :: "ContactDetails \<Rightarrow> document" where
  "model_dump_contact details =
     [''name'' \<mapsto> PyStr (name details),
      ''email'' \<mapsto> PyStr (email details),
      ''message'' \<mapsto> PyStr (message details)]"


section \<open>The environment and the observable state\<close>

text \<open>
  What the outside world answers is an input of the model: the configured credential, the
  UUID generator, the clock, and the outcome of every call to the document store and to
  the email provider. The \<open>n\<close>-th ping, the \<open>n\<close>-th email submission and the clock reading
  taken while rendering the \<open>n\<close>-th email are indexed by the number of earlier calls.
\<close>

type_synonym ObjectId = "96 word"

datatype ping_outcome = PingRaises exn | PingOk

datatype insert_outcome = InsertRaises exn | InsertOneResult "ObjectId option"

datatype send_outcome = SendRaises exn | SendReturns "string \<rightharpoonup> pystr"

record env =
  RESEND_API_KEY :: "pystr option"
  uuid4 :: UUID
  clock :: datetime
  email_clock :: "nat \<Rightarrow> datetime"
  mongo_ping :: "nat \<Rightarrow> ping_outcome"
  mongo_insert :: insert_outcome
  resend_send :: "nat \<Rightarrow> send_outcome"

text \<open>
  The email handed to \<^verbatim>\<open>resend.Emails.send\<close> (the keys \<^verbatim>\<open>from\<close>, \<^verbatim>\<open>to\<close>, \<^verbatim>\<open>subject\<close>
  and \<^verbatim>\<open>html\<close> of the dict).
\<close>

record email_content =
  email_from :: pystr
  email_to :: pystr
  subject :: pystr
  html :: pystr

text \<open>
  The state: the globals \<^verbatim>\<open>client\<close> and \<^verbatim>\<open>collection\<close> (set or still \<^verbatim>\<open>None\<close>), and
  what the program has done to the outside world: the pings it made, the documents it
  handed to \<^verbatim>\<open>insert_one\<close>, the documents the store holds, the emails it handed to the
  provider, and the waits between retries.
\<close>

record world =
  client :: bool
  collection :: bool
  pings :: nat
  insert_calls :: "document list"
  stored :: "document list"
  emails :: "email_content list"
  sleeps :: "nat list"


section \<open>Retrying (tenacity)\<close>

text \<open>
  \<^verbatim>\<open>wait_exponential(multiplier, min, max)\<close>: the wait after attempt \<open>n\<close> is
  \<open>multiplier * 2 ^ (n - 1)\<close>, clamped between \<open>min\<close> and \<open>max\<close>.
\<close>

definition wait_exponential :: "nat \<Rightarrow> nat \<Rightarrow> nat \<Rightarrow> nat \<Rightarrow> nat" where
  "wait_exponential multiplier min_wait max_wait attempt_number =
     max (max 0 min_wait) (min (multiplier * 2 ^ (attempt_number - 1)) max_wait)"

definition sleep :: "nat \<Rightarrow> world \<Rightarrow> world" where
  "sleep seconds w = w\<lparr>sleeps := sleeps w @ [seconds]\<rparr>"

text \<open>
  The loop of \<^verbatim>\<open>@retry(stop=stop_after_attempt(max_attempt), wait=..., retry=
  retry_if_exception_type(...))\<close> around a function: a returned value is returned; an
  exception outside the retried class is raised as it is; an exception of the retried
  class on attempt \<open>max_attempt\<close> or later ends the loop with \<open>RetryError\<close> (the decorators
  of the source do not set \<^verbatim>\<open>reraise\<close>); otherwise the loop waits and runs the next
  attempt.
\<close>

function retrying ::
  "nat \<Rightarrow> (nat \<Rightarrow> nat) \<Rightarrow> (exn \<Rightarrow> bool) \<Rightarrow> (world \<Rightarrow> (exn + 'a) \<times> world)
     \<Rightarrow> nat \<Rightarrow> world \<Rightarrow> (exn + 'a) \<times> world" where
  "retrying max_attempt wait retry_on fn attempt_number w =
     (case fn w of
        (Inr v, w') \<Rightarrow> (Inr v, w')
      | (Inl e, w') \<Rightarrow>
          if \<not> retry_on e then (Inl e, w')
          else if attempt_number \<ge> max_attempt then (Inl (RetryError e), w')
          else retrying max_attempt wait retry_on fn (Suc attempt_number)
                 (sleep (wait attempt_number) w'))"
  by pat_completeness auto
termination
  by (relation "measure (\<lambda>(max_attempt, wait, retry_on, fn, attempt_number, w).
        max_attempt - attempt_number)") auto

declare retrying.simps [simp del]


section \<open>Connection management\<close>







section \<open>The request store\<close>

text \<open>
  \<^verbatim>\<open>collection.insert_one(doc)\<close>. While the global \<^verbatim>\<open>collection\<close> is \<^verbatim>\<open>None\<close> the
  attribute access raises and the store is not reached. Otherwise the store either raises
  or returns a result with its \<^verbatim>\<open>inserted_id\<close>; a returned result means the document was
  written.
\<close>

definition insert_one :: "env \<Rightarrow> document \<Rightarrow> world \<Rightarrow> (exn + ObjectId option) \<times> world" where
  "insert_one env doc w =
     (if \<not> collection w then (Inl (Exception ''AttributeError''), w)
      else
        (case mongo_insert env of
           InsertRaises e \<Rightarrow> (Inl e, w\<lparr>insert_calls := insert_calls w @ [doc]\<rparr>)
         | InsertOneResult inserted_id \<Rightarrow>
             (Inr inserted_id,
              w\<lparr>insert_calls := insert_calls w @ [doc], stored := stored w @ [doc]\<rparr>)))"


section \<open>The notifier\<close>

datatype details =
    Project ProjectDetails
  | Hiring HiringDetails
  | Contact ContactDetails

text \<open>\<^verbatim>\<open>x or 'Not specified'\<close> inside an f-string.\<close>

fun or_default :: "pystr option \<Rightarrow> pystr \<Rightarrow> pystr" where
  "or_default None d = d"
| "or_default (Some s) d = (if s \<noteq> [] then s else d)"

definition received_at :: "datetime \<Rightarrow> pystr" where
  "received_at reading =
     ascii ''<p><strong>Received At:</strong> '' @ strftime (datetime_now utc reading)
     @ ascii '' UTC</p>''"

fun email_subject :: "details \<Rightarrow> pystr" where
  "email_subject (Project d) = ascii ''New Project Request from AI Assistant''"
| "email_subject (Hiring d) = ascii ''New Hiring Request from AI Assistant''"
| "email_subject (Contact d) = ascii ''New Contact Form Submission''"

fun email_html :: "datetime \<Rightarrow> details \<Rightarrow> pystr" where
  "email_html reading (Project d) =
     ascii ''<h3>New Project Request</h3>''
     @ ascii ''<p><strong>Client Type:</strong> ''
     @ or_default (ProjectDetails.clientType d) (ascii ''Not specified'') @ ascii ''</p>''
     @ ascii ''<p><strong>''
     @ (if ProjectDetails.clientType d = Some (ascii ''company'') then ascii ''Company Name''
        else ascii ''Client Name'')
     @ ascii '':</strong> ''
     @ or_default (or_else (ProjectDetails.companyName d) (clientName d))
         (ascii ''Not specified'')
     @ ascii ''</p>''
     @ ascii ''<p><strong>Project Type:</strong> ''
     @ or_default (projectType d) (ascii ''Not specified'') @ ascii ''</p>''
     @ ascii ''<p><strong>Budget:</strong> ''
     @ or_default (ProjectDetails.budget d) (ascii ''Not specified'') @ ascii ''</p>''
     @ ascii ''<p><strong>Timeline:</strong> ''
     @ or_default (ProjectDetails.timeline d) (ascii ''Not specified'') @ ascii ''</p>''
     @ ascii ''<p><strong>Requirements:</strong> ''
     @ or_default (ProjectDetails.requirements d) (ascii ''Not specified'') @ ascii ''</p>''
     @ ascii ''<p><strong>Contact Email:</strong> '' @ ProjectDetails.contactEmail d
     @ ascii ''</p>''
     @ received_at reading"
| "email_html reading (Hiring d) =
     ascii ''<h3>New Hiring Request</h3>''
     @ ascii ''<p><strong>Client Type:</strong> '' @ HiringDetails.clientType d
     @ ascii ''</p>''
     @ ascii ''<p><strong>Company Name:</strong> '' @ HiringDetails.companyName d
     @ ascii ''</p>''
     @ ascii ''<p><strong>Position Title:</strong> '' @ positionTitle d @ ascii ''</p>''
     @ ascii ''<p><strong>Budget:</strong> '' @ HiringDetails.budget d @ ascii ''</p>''
     @ ascii ''<p><strong>Timeline:</strong> '' @ HiringDetails.timeline d @ ascii ''</p>''
     @ ascii ''<p><strong>Requirements:</strong> '' @ HiringDetails.requirements d
     @ ascii ''</p>''
     @ ascii ''<p><strong>Contact Email:</strong> '' @ HiringDetails.contactEmail d
     @ ascii ''</p>''
     @ received_at reading"
| "email_html reading (Contact d) =
     ascii ''<h3>New Contact Form Submission</h3>''
     @ ascii ''<p><strong>Name:</strong> '' @ name d @ ascii ''</p>''
     @ ascii ''<p><strong>Email:</strong> '' @ email d @ ascii ''</p>''
     @ ascii ''<p><strong>Message:</strong> '' @ message d @ ascii ''</p>''
     @ received_at reading"

text \<open>
  One run of the body of \<^verbatim>\<open>send_email\<close>. Without a credential it returns \<^verbatim>\<open>False\<close>
  before anything else. Otherwise it renders the email and hands it to the provider;
  whatever is raised inside the \<^verbatim>\<open>try\<close> (by the provider, or by \<^verbatim>\<open>response['id']\<close> on a
  response without that key) is logged and raised again.
\<close>

definition send_email_attempt :: "env \<Rightarrow> details \<Rightarrow> world \<Rightarrow> (exn + bool) \<times> world" where
  "send_email_attempt env details w =
     (if \<not> truthy (RESEND_API_KEY env) then (Inr False, w)
      else
        (let n = length (emails w);
             content = \<lparr>email_from = ascii ''onboarding@resend.dev'',
                        email_to = ascii ''ahmadrajpootr1@gmail.com'',
                        subject = email_subject details,
                        html = email_html (email_clock env n) details\<rparr>;
             w' = w\<lparr>emails := emails w @ [content]\<rparr>
         in case resend_send env n of
              SendRaises e \<Rightarrow> (Inl e, w')
            | SendReturns response \<Rightarrow>
                (case response ''id'' of
                   None \<Rightarrow> (Inl (KeyError ''id''), w')
                 | Some message_id \<Rightarrow> (Inr True, w'))))"

definition send_email :: "env \<Rightarrow> details \<Rightarrow> world \<Rightarrow> (exn + bool) \<times> world" where
  "send_email env details w =
     retrying 3 (wait_exponential 1 2 5) isinstance_Exception
       (send_email_attempt env details) 1 w"


section \<open>The endpoints\<close>

record response =
  message :: string
  request_id :: pyvalue
  email_sent :: bool

text \<open>
  The three \<^verbatim>\<open>except\<close> clauses every endpoint ends with, in their order: an
  \<open>HTTPException\<close> is raised again, a \<open>PyMongoError\<close> becomes a 500 with the endpoint's
  store message, anything else becomes the generic 500.
\<close>

definition except_clauses :: "string \<Rightarrow> exn \<Rightarrow> exn" where
  "except_clauses store_detail e =
     (if isinstance_HTTPException e then e
      else if isinstance_PyMongoError e then HTTPException 500 store_detail
      else HTTPException 500
        ''An error occurred. Please try again or contact Muhammad directly at ahmadrajpootr1@gmail.com.'')"

text \<open>
  What follows validation is the same in the three endpoints, up to the dumped fields, the
  \<^verbatim>\<open>type\<close> tag and the messages: the three system fields are set, the document is
  inserted, a result without \<^verbatim>\<open>inserted_id\<close> raises \<open>PyMongoError\<close>, the email is sent and
  the response is built from the document's \<^verbatim>\<open>request_id\<close>.
\<close>

definition store_and_notify ::
  "env \<Rightarrow> document \<Rightarrow> string \<Rightarrow> string \<Rightarrow> string \<Rightarrow> details \<Rightarrow> world
     \<Rightarrow> (exn + response) \<times> world" where
  "store_and_notify env dumped type_tag missing_id_message success_message details w =
     (let data = dumped(''created_at'' \<mapsto> PyDatetime (datetime_now utc (clock env)));
          data = data(''type'' \<mapsto> PyStr (ascii type_tag));
          data = data(''request_id'' \<mapsto> PyStr (str_UUID (uuid4 env)))
      in case insert_one env data w of
           (Inl e, w1) \<Rightarrow> (Inl e, w1)
         | (Inr inserted_id, w1) \<Rightarrow>
             if inserted_id = None then (Inl (PyMongoError missing_id_message), w1)
             else
               (case send_email env details w1 of
                  (Inl e, w2) \<Rightarrow> (Inl e, w2)
                | (Inr sent, w2) \<Rightarrow>
                    (case data ''request_id'' of
                       None \<Rightarrow> (Inl (KeyError ''request_id''), w2)
                     | Some rid \<Rightarrow>
                         (Inr \<lparr>message = success_message, request_id = rid,
                               email_sent = sent\<rparr>, w2))))"

definition try_except ::
  "string \<Rightarrow> (exn + response) \<times> world \<Rightarrow> (exn + response) \<times> world" where
  "try_except store_detail outcome =
     (case outcome of
        (Inl e, w') \<Rightarrow> (Inl (except_clauses store_detail e), w')
      | (Inr r, w') \<Rightarrow> (Inr r, w'))"

definition submit_project_request ::
  "env \<Rightarrow> ProjectDetails \<Rightarrow> world \<Rightarrow> (exn + response) \<times> world" where
  "submit_project_request env details w =
     try_except ''Failed to store project details''
       (case validate_project_details details of
          Inl e \<Rightarrow> (Inl e, w)
        | Inr u \<Rightarrow>
            store_and_notify env (model_dump_exclude_unset details) ''project_request''
              ''Failed to store project details in MongoDB''
              ''Project request submitted successfully. Muhammad Ahmad will contact you soon!''
              (Project details) w)"

definition submit_hiring_request ::
  "env \<Rightarrow> HiringDetails \<Rightarrow> world \<Rightarrow> (exn + response) \<times> world" where
  "submit_hiring_request env details w =
     try_except ''Failed to store hiring details''
       (case validate_hiring_details details of
          Inl e \<Rightarrow> (Inl e, w)
        | Inr u \<Rightarrow>
            store_and_notify env (model_dump_hiring details) ''hiring_request''
              ''Failed to store hiring details in MongoDB''
              ''Hiring request submitted successfully. Muhammad Ahmad will contact you soon!''
              (Hiring details) w)"

definition submit_contact_request ::
  "env \<Rightarrow> ContactDetails \<Rightarrow> world \<Rightarrow> (exn + response) \<times> world" where
  "submit_contact_request env details w =
     try_except ''Failed to store contact details''
       (case validate_contact_details details of
          Inl e \<Rightarrow> (Inl e, w)
        | Inr u \<Rightarrow>
            store_and_notify env (model_dump_contact details) ''contact_request''
              ''Failed to store contact details in MongoDB''
              ''Your message has been sent to Muhammad Ahmad. He will contact you soon!''
              (Contact details) w)"


section \<open>Dispatch over the three kinds of submission\<close>

text \<open>
  The router maps each of the three paths to its endpoint; \<open>submit\<close> is that dispatch, and
  \<open>validate\<close> the validator the endpoint calls. The remaining functions collect, per
  kind, what the three endpoints pass to the shared steps.
\<close>

fun validate :: "details \<Rightarrow> exn + unit" where
  "validate (Project d) = validate_project_details d"
| "validate (Hiring d) = validate_hiring_details d"
| "validate (Contact d) = validate_contact_details d"

fun submit :: "env \<Rightarrow> details \<Rightarrow> world \<Rightarrow> (exn + response) \<times> world" where
  "submit env (Project d) w = submit_project_request env d w"
| "submit env (Hiring d) w = submit_hiring_request env d w"
| "submit env (Contact d) w = submit_contact_request env d w"

fun model_dump :: "details \<Rightarrow> document" where
  "model_dump (Project d) = model_dump_exclude_unset d"
| "model_dump (Hiring d) = model_dump_hiring d"
| "model_dump (Contact d) = model_dump_contact d"

fun type_tag :: "details \<Rightarrow> string" where
  "type_tag (Project d) = ''project_request''"
| "type_tag (Hiring d) = ''hiring_request''"
| "type_tag (Contact d) = ''contact_request''"

fun failed_to_store :: "details \<Rightarrow> string" where
  "failed_to_store (Project d) = ''Failed to store project details''"
| "failed_to_store (Hiring d) = ''Failed to store hiring details''"
| "failed_to_store (Contact d) = ''Failed to store contact details''"

fun success_message :: "details \<Rightarrow> string" where
  "success_message (Project d) =
     ''Project request submitted successfully. Muhammad Ahmad will contact you soon!''"
| "success_message (Hiring d) =
     ''Hiring request submitted successfully. Muhammad Ahmad will contact you soon!''"
| "success_message (Contact d) =
     ''Your message has been sent to Muhammad Ahmad. He will contact you soon!''"

definition generic_error :: string where
  "generic_error =
     ''An error occurred. Please try again or contact Muhammad directly at ahmadrajpootr1@gmail.com.''"

text \<open>The document an endpoint hands to the store: the dumped fields and the three system
  fields.\<close>

definition record_of :: "env \<Rightarrow> details \<Rightarrow> document" where
  "record_of env details =
     (model_dump details)
       (''created_at'' \<mapsto> PyDatetime (datetime_now utc (clock env)),
        ''type'' \<mapsto> PyStr (ascii (type_tag details)),
        ''request_id'' \<mapsto> PyStr (str_UUID (uuid4 env)))"


section \<open>The validation rules as the specification lists them\<close>

text \<open>
  The specification gives each validator as a list of rules and says that the first
  violated rule, in the listed order, is the one reported. A string is blank after
  trimming when it holds nothing but whitespace. For a project request a client type is
  present when it is given and not empty, and a required name is missing when it is absent
  or empty.
\<close>

definition blank :: "pystr \<Rightarrow> bool" where
  "blank s = (\<forall>c\<in>set s. isspace c)"

fun first_violation :: "(('a \<Rightarrow> bool) \<times> string) list \<Rightarrow> 'a \<Rightarrow> exn + unit" where
  "first_violation [] d = Inr ()"
| "first_violation ((violated, detail) # rules) d =
     (if violated d then Inl (HTTPException 400 detail) else first_violation rules d)"

definition hiring_rules :: "((HiringDetails \<Rightarrow> bool) \<times> string) list" where
  "hiring_rules =
     [(\<lambda>d. HiringDetails.clientType d \<noteq> ascii ''company'',
         ''Client type must be 'company' for hiring requests''),
      (\<lambda>d. blank (HiringDetails.companyName d), ''Company name is required''),
      (\<lambda>d. blank (positionTitle d), ''Position title is required''),
      (\<lambda>d. blank (HiringDetails.budget d), ''Budget is required''),
      (\<lambda>d. blank (HiringDetails.timeline d), ''Timeline is required''),
      (\<lambda>d. blank (HiringDetails.requirements d), ''Requirements are required''),
      (\<lambda>d. HiringDetails.contactEmail d = [], ''Contact email is required'')]"

definition contact_rules :: "((ContactDetails \<Rightarrow> bool) \<times> string) list" where
  "contact_rules =
     [(\<lambda>d. blank (name d), ''Name is required''),
      (\<lambda>d. blank (ContactDetails.message d), ''Message is required''),
      (\<lambda>d. length (ContactDetails.message d) > 1000,
         ''Message cannot exceed 1000 characters'')]"

definition project_rules :: "((ProjectDetails \<Rightarrow> bool) \<times> string) list" where
  "project_rules =
     [(\<lambda>d. ProjectDetails.contactEmail d = [], ''Contact email is required''),
      (\<lambda>d. truthy (ProjectDetails.clientType d)
            \<and> ProjectDetails.clientType d \<noteq> Some (ascii ''company'')
            \<and> ProjectDetails.clientType d \<noteq> Some (ascii ''individual''),
         ''Invalid client type''),
      (\<lambda>d. ProjectDetails.clientType d = Some (ascii ''company'')
            \<and> \<not> truthy (ProjectDetails.companyName d),
         ''Company name is required for company client type''),
      (\<lambda>d. ProjectDetails.clientType d = Some (ascii ''individual'')
            \<and> \<not> truthy (clientName d),
         ''Client name is required for individual client type'')]"


section \<open>The system fields of a stored record\<close>

text \<open>
  A document has its three system fields set when \<^verbatim>\<open>request_id\<close> is the string of the
  UUID generated for the request (not empty), \<^verbatim>\<open>created_at\<close> is the clock reading taken
  for the request, in UTC, and \<^verbatim>\<open>type\<close> is the tag of the submission's kind, one of the
  three tags.
\<close>

definition system_fields_set :: "env \<Rightarrow> details \<Rightarrow> document \<Rightarrow> bool" where
  "system_fields_set env d doc =
     (doc ''request_id'' = Some (PyStr (str_UUID (uuid4 env)))
      \<and> str_UUID (uuid4 env) \<noteq> []
      \<and> doc ''created_at'' = Some (PyDatetime (datetime_now utc (clock env)))
      \<and> tzinfo (datetime_now utc (clock env)) = Some utc
      \<and> doc ''type'' = Some (PyStr (ascii (type_tag d)))
      \<and> type_tag d \<in> {''project_request'', ''hiring_request'', ''contact_request''})"


section \<open>Sample inputs\<close>

definition sample_contact :: ContactDetails where
  "sample_contact =
     \<lparr>name = ascii ''Ada'', email = ascii ''ada@example.org'', message = ascii ''Hello''\<rparr>"

definition sample_hiring :: HiringDetails where
  "sample_hiring =
     \<lparr>HiringDetails.clientType = ascii ''company'', companyName = ascii ''Acme'',
      positionTitle = ascii ''Engineer'', budget = ascii ''5000'', timeline = ascii ''Q3'',
      requirements = ascii ''Python'', contactEmail = ascii ''hr@acme.example''\<rparr>"

definition sample_project :: ProjectDetails where
  "sample_project =
     \<lparr>ProjectDetails.clientType = Some (ascii ''company''), clientName = None,
      companyName = Some (ascii '' ''), projectType = None, budget = None, timeline = None,
      requirements = None, contactEmail = ascii ''pm@acme.example'',
      model_fields_set = {''clientType'', ''companyName'', ''contactEmail''}\<rparr>"


definition ready :: world where
  "ready = \<lparr>client = True, collection = True, pings = 1, insert_calls = [], stored = [],
            emails = [], sleeps = []\<rparr>"

text \<open>
  An environment in which everything works, and its variants: the store unreachable, the
  store refusing or not acknowledging a write, the email provider down, and no credential
  configured.
\<close>

definition sample_env :: env where
  "sample_env =
     \<lparr>RESEND_API_KEY = Some (ascii ''re_test''),
      uuid4 = 0x123e4567e89b42d3a456426614174000,
      clock = \<lparr>year = 2024, month = 5, day = 17, hour = 9, minute = 30, second = 0,
               microsecond = 0, tzinfo = None\<rparr>,
      email_clock = (\<lambda>n. \<lparr>year = 2024, month = 5, day = 17, hour = 9, minute = 30,
                             second = n, microsecond = 0, tzinfo = None\<rparr>),
      mongo_ping = (\<lambda>n. PingOk),
      mongo_insert = InsertOneResult (Some 1),
      resend_send = (\<lambda>n. SendReturns [''id'' \<mapsto> ascii ''msg_1''])\<rparr>"


definition write_refused :: env where
  "write_refused = sample_env\<lparr>mongo_insert := InsertRaises (PyMongoError ''not primary'')\<rparr>"

definition write_without_id :: env where
  "write_without_id = sample_env\<lparr>mongo_insert := InsertOneResult None\<rparr>"

definition provider_down :: env where
  "provider_down =
     sample_env\<lparr>resend_send := (\<lambda>n. SendRaises (Exception ''provider down''))\<rparr>"

definition unconfigured :: env where
  "unconfigured = sample_env\<lparr>RESEND_API_KEY := None\<rparr>"


section \<open>Strings and validation\<close>

lemma strip_empty_iff: "strip s = [] \<longleftrightarrow> blank s"
proof -
  have "(\<forall>c\<in>set (dropWhile isspace s). isspace c) \<longleftrightarrow> dropWhile isspace s = []"
  proof
    assume a: "\<forall>c\<in>set (dropWhile isspace s). isspace c"
    show "dropWhile isspace s = []"
    proof (rule ccontr)
      assume "dropWhile isspace s \<noteq> []"
      then have "\<not> isspace (hd (dropWhile isspace s))"
        and "hd (dropWhile isspace s) \<in> set (dropWhile isspace s)"
        by (simp_all add: hd_dropWhile)
      with a show False by blast
    qed
  qed (auto dest: set_dropWhileD)
  then show ?thesis
    by (simp add: strip_def blank_def dropWhile_eq_Nil_conv)
qed

lemma ascii_eq_iff: "ascii s = ascii t \<longleftrightarrow> s = t"
  unfolding ascii_def by (simp add: inj_map_eq_map inj_on_def)

lemma validate_error_400:
  "validate d = Inl e \<Longrightarrow> \<exists>detail. e = HTTPException 400 detail"
  by (cases d)
    (auto simp add: validate_project_details_def validate_hiring_details_def
      validate_contact_details_def split: if_splits)

lemma sample_valid:
  "validate (Contact sample_contact) = Inr ()"
  "validate (Hiring sample_hiring) = Inr ()"
  "validate (Project sample_project) = Inr ()"
  by (simp_all add: sample_contact_def sample_hiring_def sample_project_def
      validate_contact_details_def validate_hiring_details_def validate_project_details_def
      strip_def isspace_def ascii_def)

text \<open>
  Claim C3. A contact message whose name and message are not blank is accepted when the
  message has exactly 1000 characters (code points), and rejected with a 400 citing the
  length rule when it has 1001.
\<close>

theorem contact_message_length_boundary:
  assumes "\<not> blank (name d)" and "\<not> blank (ContactDetails.message d)"
  shows "(length (ContactDetails.message d) = 1000 \<longrightarrow> validate_contact_details d = Inr ())
       \<and> (length (ContactDetails.message d) = 1001 \<longrightarrow>
            validate_contact_details d
              = Inl (HTTPException 400 ''Message cannot exceed 1000 characters''))"
  using assms by (simp add: validate_contact_details_def strip_empty_iff)

text \<open>
  The sample message is made of the code point 8364 (the euro sign, three bytes in UTF-8):
  1000 of them are 3000 bytes and are accepted.
\<close>

theorem contact_message_length_boundary_witness:
  "validate_contact_details
     \<lparr>name = ascii ''Ada'', email = ascii ''ada@example.org'', message = replicate 1000 8364\<rparr>
     = Inr ()
   \<and> validate_contact_details
     \<lparr>name = ascii ''Ada'', email = ascii ''ada@example.org'', message = replicate 1001 8364\<rparr>
     = Inl (HTTPException 400 ''Message cannot exceed 1000 characters'')"
proof -
  have n: "\<not> blank (ascii ''Ada'')"
    by (simp add: blank_def ascii_def isspace_def)
  have m: "\<not> blank (replicate 1000 8364)" "\<not> blank (replicate 1001 8364)"
    by (simp_all add: blank_def isspace_def)
  show ?thesis
    using contact_message_length_boundary
            [of "\<lparr>name = ascii ''Ada'', email = ascii ''ada@example.org'',
                  message = replicate 1000 8364\<rparr>"]
          contact_message_length_boundary
            [of "\<lparr>name = ascii ''Ada'', email = ascii ''ada@example.org'',
                  message = replicate 1001 8364\<rparr>"]
          n m
    by simp
qed


text \<open>
  Claim C7. Each validator returns ok or exactly one violation, and the violation it
  reports is the first violated rule in the order the specification lists: for a hiring
  request the client type, then company name, position title, budget, timeline,
  requirements and contact email; for a contact message the name, then the blank message,
  then the message length. The validators are functions, so they are total and
  deterministic.
\<close>

theorem validators_report_first_violation:
  "validate_hiring_details h = first_violation hiring_rules h
   \<and> validate_contact_details c = first_violation contact_rules c
   \<and> validate_project_details p = first_violation project_rules p"
  by (simp add: validate_hiring_details_def validate_contact_details_def
      validate_project_details_def hiring_rules_def contact_rules_def project_rules_def
      strip_empty_iff)

theorem validators_report_first_violation_witness:
  "validate_hiring_details
     (sample_hiring\<lparr>HiringDetails.clientType := ascii ''individual'',
                     companyName := ascii '' '', budget := []\<rparr>)
     = Inl (HTTPException 400 ''Client type must be 'company' for hiring requests'')
   \<and> validate_hiring_details (sample_hiring\<lparr>companyName := ascii '' '', budget := []\<rparr>)
     = Inl (HTTPException 400 ''Company name is required'')
   \<and> validate_contact_details
       (sample_contact\<lparr>name := [], ContactDetails.message := replicate 1001 32\<rparr>)
     = Inl (HTTPException 400 ''Name is required'')
   \<and> validate_contact_details (sample_contact\<lparr>ContactDetails.message := replicate 1001 32\<rparr>)
     = Inl (HTTPException 400 ''Message is required'')
   \<and> validate_project_details
       (sample_project\<lparr>ProjectDetails.clientType := Some (ascii ''agency''),
                        ProjectDetails.companyName := None\<rparr>)
     = Inl (HTTPException 400 ''Invalid client type'')"
proof -
  have s: "blank (replicate 1001 32)" "blank (ascii '' '')" "\<not> blank (ascii ''Ada'')"
    by (simp_all add: blank_def isspace_def ascii_def)
  show ?thesis
    using validators_report_first_violation
        [of "sample_hiring\<lparr>HiringDetails.clientType := ascii ''individual'',
                            companyName := ascii '' '', budget := []\<rparr>"
            "sample_contact\<lparr>name := [], ContactDetails.message := replicate 1001 32\<rparr>"
            "sample_project\<lparr>ProjectDetails.clientType := Some (ascii ''agency''),
                             ProjectDetails.companyName := None\<rparr>"]
      validators_report_first_violation
        [of "sample_hiring\<lparr>companyName := ascii '' '', budget := []\<rparr>"
            "sample_contact\<lparr>ContactDetails.message := replicate 1001 32\<rparr>" sample_project]
      s
    by (simp add: hiring_rules_def contact_rules_def project_rules_def sample_hiring_def
        sample_contact_def sample_project_def ascii_def blank_def isspace_def)
qed

text \<open>
  Claim C10. Project validation does not trim: a project request with client type
  \<^verbatim>\<open>company\<close> and a company name that is not empty and holds only whitespace is accepted
  (its contact email, an \<^verbatim>\<open>EmailStr\<close>, is never empty), whereas hiring validation rejects
  a company name that holds only whitespace.
\<close>

theorem project_validation_does_not_trim:
  "(ProjectDetails.clientType p = Some (ascii ''company'')
      \<and> ProjectDetails.companyName p = Some s \<and> s \<noteq> [] \<and> blank s
      \<and> ProjectDetails.contactEmail p \<noteq> []
      \<longrightarrow> validate_project_details p = Inr ())
   \<and> (HiringDetails.clientType h = ascii ''company'' \<and> blank (HiringDetails.companyName h)
      \<longrightarrow> validate_hiring_details h = Inl (HTTPException 400 ''Company name is required''))"
  by (simp add: validate_project_details_def validate_hiring_details_def strip_empty_iff
      ascii_eq_iff)

theorem project_validation_does_not_trim_witness:
  "validate_project_details sample_project = Inr ()
   \<and> validate_hiring_details (sample_hiring\<lparr>companyName := ascii '' ''\<rparr>)
       = Inl (HTTPException 400 ''Company name is required'')"
proof -
  have s: "blank (ascii '' '')" "ascii '' '' \<noteq> []" "ascii ''pm@acme.example'' \<noteq> []"
    by (simp_all add: blank_def isspace_def ascii_def)
  show ?thesis
    using project_validation_does_not_trim
        [of sample_project "ascii '' ''" "sample_hiring\<lparr>companyName := ascii '' ''\<rparr>"] s
    by (simp add: sample_project_def sample_hiring_def ascii_def)
qed


section \<open>The retry loop\<close>

lemma retrying_Inr:
  "fn w = (Inr v, w') \<Longrightarrow> retrying m wt ro fn a w = (Inr v, w')"
  by (subst retrying.simps) simp


lemma retrying_exhausted:
  "fn w = (Inl e, w') \<Longrightarrow> ro e \<Longrightarrow> m \<le> a \<Longrightarrow>
     retrying m wt ro fn a w = (Inl (RetryError e), w')"
  by (subst retrying.simps) simp

lemma retrying_again:
  "fn w = (Inl e, w') \<Longrightarrow> ro e \<Longrightarrow> a < m \<Longrightarrow>
     retrying m wt ro fn a w = retrying m wt ro fn (Suc a) (sleep (wt a) w')"
  by (subst retrying.simps) simp

text \<open>What neither an attempt nor a wait changes, the loop does not change.\<close>

lemma retrying_preserves:
  assumes "\<And>v. f (snd (fn v)) = f v" and "\<And>s v. f (sleep s v) = f v"
  shows "f (snd (retrying m wt ro fn a w)) = f w"
  using assms
proof (induction m wt ro fn a w rule: retrying.induct)
  case (1 m wt ro fn a w)
  note step = "1.prems"(1) and slept = "1.prems"(2)
  obtain r w' where fw: "fn w = (r, w')" by (cases "fn w")
  then have w': "f w' = f w" using step [of w] by simp
  show ?case
  proof (cases r)
    case (Inr v)
    with fw w' show ?thesis by (simp add: retrying_Inr)
  next
    case (Inl e)
    show ?thesis
    proof (cases "ro e \<and> a < m")
      case False
      with fw Inl w' show ?thesis
        by (subst retrying.simps) auto
    next
      case True
      with fw Inl have "retrying m wt ro fn a w
          = retrying m wt ro fn (Suc a) (sleep (wt a) w')"
        by (simp add: retrying_again)
      moreover have "f (snd (retrying m wt ro fn (Suc a) (sleep (wt a) w')))
          = f (sleep (wt a) w')"
        using "1.IH" [OF fw [symmetric] Inl] True step slept by simp
      ultimately show ?thesis using w' slept by simp
    qed
  qed
qed


section \<open>Connecting at startup\<close>









section \<open>The store and the notifier\<close>

lemma insert_one_raises:
  "collection w \<Longrightarrow> mongo_insert env = InsertRaises e \<Longrightarrow>
     insert_one env doc w = (Inl e, w\<lparr>insert_calls := insert_calls w @ [doc]\<rparr>)"
  by (simp add: insert_one_def)

lemma insert_one_returns:
  "collection w \<Longrightarrow> mongo_insert env = InsertOneResult oid \<Longrightarrow>
     insert_one env doc w
       = (Inr oid, w\<lparr>insert_calls := insert_calls w @ [doc], stored := stored w @ [doc]\<rparr>)"
  by (simp add: insert_one_def)

lemma insert_one_effect:
  "insert_one env doc w = (r, w1) \<Longrightarrow>
     emails w1 = emails w \<and> sleeps w1 = sleeps w
     \<and> (insert_calls w1 = insert_calls w \<or> insert_calls w1 = insert_calls w @ [doc])
     \<and> (stored w1 = stored w \<or> stored w1 = stored w @ [doc])
     \<and> ((\<exists>oid. r = Inr oid) \<longrightarrow> stored w1 = stored w @ [doc])"
  by (auto simp add: insert_one_def split: if_splits insert_outcome.splits)

lemma send_email_unconfigured:
  "\<not> truthy (RESEND_API_KEY env) \<Longrightarrow> send_email env d w = (Inr False, w)"
  by (simp add: send_email_def retrying_Inr send_email_attempt_def)

lemma send_email_sent:
  assumes "truthy (RESEND_API_KEY env)"
    and "resend_send env (length (emails w)) = SendReturns resp" and "resp ''id'' = Some mid"
  shows "send_email env d w
           = (Inr True,
              w\<lparr>emails := emails w @
                   [\<lparr>email_from = ascii ''onboarding@resend.dev'',
                     email_to = ascii ''ahmadrajpootr1@gmail.com'',
                     subject = email_subject d,
                     html = email_html (email_clock env (length (emails w))) d\<rparr>]\<rparr>)"
  unfolding send_email_def
  by (rule retrying_Inr) (simp add: send_email_attempt_def Let_def assms)

lemma send_email_attempt_stored:
  "stored (snd (send_email_attempt env d v)) = stored v"
  "insert_calls (snd (send_email_attempt env d v)) = insert_calls v"
  by (simp_all add: send_email_attempt_def Let_def split: send_outcome.split option.split)

lemma send_email_stored:
  "stored (snd (send_email env d w)) = stored w"
  "insert_calls (snd (send_email env d w)) = insert_calls w"
  unfolding send_email_def
  by (rule retrying_preserves; simp add: send_email_attempt_stored sleep_def)+

text \<open>
  Three provider faults in a row: three emails handed over, two waits, and \<open>RetryError\<close>.
\<close>

lemma send_email_exhausted:
  assumes key: "truthy (RESEND_API_KEY env)"
    and faults: "\<forall>i<3. \<exists>e. resend_send env (length (emails w) + i) = SendRaises e"
  shows "\<exists>e w'. send_email env d w = (Inl (RetryError e), w')
           \<and> length (emails w') = length (emails w) + 3
           \<and> sleeps w' = sleeps w @ [2, 2]
           \<and> stored w' = stored w \<and> insert_calls w' = insert_calls w"
proof -
  have fails: "\<exists>e. resend_send env (length (emails w) + i) = SendRaises e" if "i < 3" for i
    using faults that by blast
  from fails [of 0] fails [of 1] fails [of 2]
  obtain e0 e1 e2 where
    e: "resend_send env (length (emails w)) = SendRaises e0"
       "resend_send env (Suc (length (emails w))) = SendRaises e1"
       "resend_send env (Suc (Suc (length (emails w)))) = SendRaises e2"
    by (auto simp add: numeral_eq_Suc)
  let ?content = "\<lambda>v. \<lparr>email_from = ascii ''onboarding@resend.dev'',
                         email_to = ascii ''ahmadrajpootr1@gmail.com'',
                         subject = email_subject d,
                         html = email_html (email_clock env (length (emails v))) d\<rparr>"
  let ?sent = "\<lambda>v. v\<lparr>emails := emails v @ [?content v]\<rparr>"
  have attempt: "send_email_attempt env d v = (Inl x, ?sent v)"
    if "resend_send env (length (emails v)) = SendRaises x" for v x
    using that key by (simp add: send_email_attempt_def Let_def)
  let ?R = "retrying 3 (wait_exponential 1 2 5) isinstance_Exception (send_email_attempt env d)"
  have again: "?R a v = ?R b (sleep s (?sent v))"
    if "resend_send env (length (emails v)) = SendRaises x"
      and "a < 3" and "b = Suc a" and "s = wait_exponential 1 2 5 a" for a b s v x
    unfolding that(3,4)
    by (rule retrying_again [where e = x]) (simp_all add: attempt that)
  have exhausted: "?R 3 v = (Inl (RetryError x), ?sent v)"
    if "resend_send env (length (emails v)) = SendRaises x" for v x
    by (rule retrying_exhausted) (simp_all add: attempt that)
  let ?w1 = "sleep 2 (?sent w)"
  let ?w2 = "sleep 2 (?sent ?w1)"
  have e1: "resend_send env (length (emails ?w1)) = SendRaises e1"
    and e2: "resend_send env (length (emails ?w2)) = SendRaises e2"
    using e by (simp_all add: sleep_def)
  have "?R 1 w = ?R 2 ?w1"
    by (rule again [OF e(1)]) (simp_all add: wait_exponential_def)
  also have "\<dots> = ?R 3 ?w2"
    by (rule again [OF e1]) (simp_all add: wait_exponential_def)
  also have "\<dots> = (Inl (RetryError e2), ?sent ?w2)"
    by (rule exhausted [OF e2])
  finally show ?thesis
    by (simp add: send_email_def sleep_def)
qed


section \<open>The endpoints\<close>

lemma store_and_notify_eq:
  "store_and_notify env dumped tag mid ok d w =
     (case insert_one env
             (dumped(''created_at'' \<mapsto> PyDatetime (datetime_now utc (clock env)),
                     ''type'' \<mapsto> PyStr (ascii tag),
                     ''request_id'' \<mapsto> PyStr (str_UUID (uuid4 env)))) w of
        (Inl e, w1) \<Rightarrow> (Inl e, w1)
      | (Inr inserted_id, w1) \<Rightarrow>
          if inserted_id = None then (Inl (PyMongoError mid), w1)
          else
            (case send_email env d w1 of
               (Inl e, w2) \<Rightarrow> (Inl e, w2)
             | (Inr sent, w2) \<Rightarrow>
                 (Inr \<lparr>message = ok, request_id = PyStr (str_UUID (uuid4 env)),
                       email_sent = sent\<rparr>, w2)))"
  by (simp add: store_and_notify_def Let_def split: prod.split sum.split)

text \<open>The three endpoints in one equation, with the \<^verbatim>\<open>except\<close> clauses applied.\<close>

lemma submit_eq:
  "submit env d w =
     (case validate d of
        Inl e \<Rightarrow> (Inl e, w)
      | Inr u \<Rightarrow>
          (case insert_one env (record_of env d) w of
             (Inl e, w1) \<Rightarrow> (Inl (except_clauses (failed_to_store d) e), w1)
           | (Inr None, w1) \<Rightarrow> (Inl (HTTPException 500 (failed_to_store d)), w1)
           | (Inr (Some oid), w1) \<Rightarrow>
               (case send_email env d w1 of
                  (Inl e, w2) \<Rightarrow> (Inl (except_clauses (failed_to_store d) e), w2)
                | (Inr sent, w2) \<Rightarrow>
                    (Inr \<lparr>message = success_message d,
                          request_id = PyStr (str_UUID (uuid4 env)),
                          email_sent = sent\<rparr>, w2))))"
proof (cases "validate d")
  case (Inl e)
  then obtain detail where "e = HTTPException 400 detail"
    using validate_error_400 by blast
  with Inl show ?thesis
    by (cases d)
      (simp_all add: submit_project_request_def submit_hiring_request_def
        submit_contact_request_def try_except_def except_clauses_def)
next
  case (Inr u)
  obtain r1 w1 where ins: "insert_one env (record_of env d) w = (r1, w1)"
    by (cases "insert_one env (record_of env d) w")
  obtain r2 w2 where snd: "send_email env d w1 = (r2, w2)"
    by (cases "send_email env d w1")
  show ?thesis
  proof (cases d)
    case (Project p)
    with Inr ins snd show ?thesis
      by (simp add: submit_project_request_def try_except_def except_clauses_def
          store_and_notify_eq record_of_def split: sum.split option.split)
  next
    case (Hiring h)
    with Inr ins snd show ?thesis
      by (simp add: submit_hiring_request_def try_except_def except_clauses_def
          store_and_notify_eq record_of_def split: sum.split option.split)
  next
    case (Contact c)
    with Inr ins snd show ?thesis
      by (simp add: submit_contact_request_def try_except_def except_clauses_def
          store_and_notify_eq record_of_def split: sum.split option.split)
  qed
qed


lemma length_str_UUID: "length (str_UUID u) = 36"
  by (simp add: str_UUID_def hex32_def ascii_def Let_def)

lemma record_of_fields:
  "record_of env d ''request_id'' = Some (PyStr (str_UUID (uuid4 env)))"
  "record_of env d ''created_at'' = Some (PyDatetime (datetime_now utc (clock env)))"
  "record_of env d ''type'' = Some (PyStr (ascii (type_tag d)))"
  by (simp_all add: record_of_def)

lemma record_of_system_fields: "system_fields_set env d (record_of env d)"
proof -
  have "str_UUID (uuid4 env) \<noteq> []"
    using length_str_UUID [of "uuid4 env"] by auto
  moreover have "type_tag d \<in> {''project_request'', ''hiring_request'', ''contact_request''}"
    by (cases d) simp_all
  ultimately show ?thesis
    by (simp add: system_fields_set_def record_of_fields datetime_now_def)
qed

lemma submit_stored:
  "stored (snd (submit env d w)) = stored w
   \<or> stored (snd (submit env d w)) = stored w @ [record_of env d]"
proof -
  obtain r1 w1 where ins: "insert_one env (record_of env d) w = (r1, w1)"
    by (cases "insert_one env (record_of env d) w")
  obtain r2 w2 where snd: "send_email env d w1 = (r2, w2)"
    by (cases "send_email env d w1")
  have "stored w2 = stored w1"
    using send_email_stored(1) [of env d w1] snd by simp
  moreover have "stored w1 = stored w \<or> stored w1 = stored w @ [record_of env d]"
    using insert_one_effect [OF ins] by blast
  ultimately show ?thesis
    using ins snd by (auto simp add: submit_eq split: sum.split option.split)
qed

lemma submit_insert_calls:
  "insert_calls (snd (submit env d w)) = insert_calls w
   \<or> insert_calls (snd (submit env d w)) = insert_calls w @ [record_of env d]"
proof -
  obtain r1 w1 where ins: "insert_one env (record_of env d) w = (r1, w1)"
    by (cases "insert_one env (record_of env d) w")
  obtain r2 w2 where snd: "send_email env d w1 = (r2, w2)"
    by (cases "send_email env d w1")
  have "insert_calls w2 = insert_calls w1"
    using send_email_stored(2) [of env d w1] snd by simp
  moreover have "insert_calls w1 = insert_calls w
      \<or> insert_calls w1 = insert_calls w @ [record_of env d]"
    using insert_one_effect [OF ins] by blast
  ultimately show ?thesis
    using ins snd by (auto simp add: submit_eq split: sum.split option.split)
qed

lemma submit_success_stored:
  assumes "fst (submit env d w) = Inr r"
  shows "request_id r = PyStr (str_UUID (uuid4 env))
         \<and> stored (snd (submit env d w)) = stored w @ [record_of env d]"
proof -
  obtain r1 w1 where ins: "insert_one env (record_of env d) w = (r1, w1)"
    by (cases "insert_one env (record_of env d) w")
  obtain r2 w2 where snd: "send_email env d w1 = (r2, w2)"
    by (cases "send_email env d w1")
  have s2: "stored w2 = stored w1"
    using send_email_stored(1) [of env d w1] snd by simp
  have s1: "(\<exists>oid. r1 = Inr oid) \<longrightarrow> stored w1 = stored w @ [record_of env d]"
    using insert_one_effect [OF ins] by blast
  show ?thesis
    using assms ins snd s1 s2
    by (auto simp add: submit_eq split: sum.splits option.splits)
qed

text \<open>A valid submission in the environment where everything works.\<close>

lemma submit_sample_env:
  assumes "validate d = Inr ()"
  shows "submit sample_env d ready
    = (Inr \<lparr>message = success_message d, request_id = PyStr (str_UUID (uuid4 sample_env)),
            email_sent = True\<rparr>,
       ready\<lparr>insert_calls := [record_of sample_env d], stored := [record_of sample_env d],
              emails := [\<lparr>email_from = ascii ''onboarding@resend.dev'',
                          email_to = ascii ''ahmadrajpootr1@gmail.com'',
                          subject = email_subject d,
                          html = email_html (email_clock sample_env 0) d\<rparr>]\<rparr>)"
proof -
  let ?w1 = "ready\<lparr>insert_calls := insert_calls ready @ [record_of sample_env d],
                    stored := stored ready @ [record_of sample_env d]\<rparr>"
  have i: "insert_one sample_env (record_of sample_env d) ready = (Inr (Some 1), ?w1)"
    by (rule insert_one_returns) (simp_all add: ready_def sample_env_def)
  have "send_email sample_env d ?w1
      = (Inr True,
         ?w1\<lparr>emails := emails ?w1 @
              [\<lparr>email_from = ascii ''onboarding@resend.dev'',
                email_to = ascii ''ahmadrajpootr1@gmail.com'',
                subject = email_subject d,
                html = email_html (email_clock sample_env (length (emails ?w1))) d\<rparr>]\<rparr>)"
    by (rule send_email_sent
          [where mid = "ascii ''msg_1''" and resp = "[''id'' \<mapsto> ascii ''msg_1'']"])
      (simp_all add: sample_env_def ascii_def)
  with i assms show ?thesis
    by (simp add: submit_eq ready_def)
qed

lemma upt_32:
  "[0..<32] = [0, 1, 2, 3, 4, 5, 6, 7, 8, 9, 10, 11, 12, 13, 14, 15, 16, 17, 18, 19, 20, 21,
               22, 23, 24, 25, 26, 27, 28, 29, 30, 31]"
  by (simp add: upt_conv_Cons)

lemma sample_uuid:
  "str_UUID 0x123e4567e89b42d3a456426614174000 = ascii ''123e4567-e89b-42d3-a456-426614174000''"
  by (simp add: str_UUID_def hex32_def hexdigit_def ascii_def Let_def upt_32)

text \<open>
  Claim C4. A submission that fails validation is answered with the validator's 400, which
  names the violated rule, and leaves the state as it was: nothing is handed to the store,
  nothing is stored and no email is handed to the provider. In particular a hiring
  submission whose client type is not \<^verbatim>\<open>company\<close> gets the 400 of the client-type rule.
\<close>

theorem invalid_submission_rejected_without_effects:
  "(validate d = Inl e \<longrightarrow>
      (\<exists>detail. e = HTTPException 400 detail) \<and> submit env d w = (Inl e, w)
      \<and> insert_calls (snd (submit env d w)) = insert_calls w
      \<and> stored (snd (submit env d w)) = stored w
      \<and> emails (snd (submit env d w)) = emails w)
   \<and> (HiringDetails.clientType h \<noteq> ascii ''company'' \<longrightarrow>
        submit_hiring_request env h w
          = (Inl (HTTPException 400 ''Client type must be 'company' for hiring requests''), w))"
proof -
  have "submit env d w = (Inl e, w)" if "validate d = Inl e"
    using that by (simp add: submit_eq)
  moreover have "submit env (Hiring h) w
      = (Inl (HTTPException 400 ''Client type must be 'company' for hiring requests''), w)"
    if "HiringDetails.clientType h \<noteq> ascii ''company''"
    using that by (simp add: submit_eq validate_hiring_details_def del: submit.simps)
  ultimately show ?thesis
    using validate_error_400 [of d e] by simp
qed

theorem invalid_submission_rejected_without_effects_witness:
  "submit_hiring_request sample_env
       (sample_hiring\<lparr>HiringDetails.clientType := ascii ''individual''\<rparr>) ready
     = (Inl (HTTPException 400 ''Client type must be 'company' for hiring requests''), ready)
   \<and> insert_calls (snd (submit sample_env
        (Hiring (sample_hiring\<lparr>HiringDetails.clientType := ascii ''individual''\<rparr>)) ready)) = []
   \<and> emails (snd (submit sample_env
        (Hiring (sample_hiring\<lparr>HiringDetails.clientType := ascii ''individual''\<rparr>)) ready)) = []"
proof -
  let ?h = "sample_hiring\<lparr>HiringDetails.clientType := ascii ''individual''\<rparr>"
  have t: "HiringDetails.clientType ?h \<noteq> ascii ''company''"
    by (simp add: ascii_eq_iff)
  then have v: "validate (Hiring ?h)
      = Inl (HTTPException 400 ''Client type must be 'company' for hiring requests'')"
    by (simp add: validate_hiring_details_def)
  show ?thesis
    using invalid_submission_rejected_without_effects
        [of "Hiring ?h" "HTTPException 400 ''Client type must be 'company' for hiring requests''"
          sample_env ready ?h] t v
    by (simp add: ready_def)
qed


text \<open>
  Claim C5. For a validated submission, when \<^verbatim>\<open>insert_one\<close> raises a store fault (a
  \<open>PyMongoError\<close>) or returns a result without an assigned identifier, the endpoint
  answers with a 500 carrying its "Failed to store ..." message, and no email is handed to
  the provider (and no retry wait happens).
\<close>

theorem store_failure_gives_500_without_email:
  assumes "validate d = Inr ()" and "collection w"
    and "(\<exists>e. mongo_insert env = InsertRaises e \<and> isinstance_PyMongoError e)
         \<or> mongo_insert env = InsertOneResult None"
  shows "fst (submit env d w) = Inl (HTTPException 500 (failed_to_store d))
         \<and> emails (snd (submit env d w)) = emails w
         \<and> sleeps (snd (submit env d w)) = sleeps w"
  using assms(3)
proof
  assume "\<exists>e. mongo_insert env = InsertRaises e \<and> isinstance_PyMongoError e"
  then obtain e where e: "mongo_insert env = InsertRaises e" "isinstance_PyMongoError e"
    by blast
  then have "\<not> isinstance_HTTPException e"
    by (cases e) simp_all
  with e assms(1,2) show ?thesis
    by (simp add: submit_eq insert_one_raises except_clauses_def)
next
  assume "mongo_insert env = InsertOneResult None"
  with assms(1,2) show ?thesis
    by (simp add: submit_eq insert_one_returns)
qed

theorem store_failure_gives_500_without_email_witness:
  "fst (submit write_refused (Contact sample_contact) ready)
     = Inl (HTTPException 500 ''Failed to store contact details'')
   \<and> emails (snd (submit write_refused (Contact sample_contact) ready)) = []
   \<and> fst (submit write_without_id (Project sample_project) ready)
     = Inl (HTTPException 500 ''Failed to store project details'')
   \<and> emails (snd (submit write_without_id (Project sample_project) ready)) = []"
proof -
  have a: "(\<exists>e. mongo_insert write_refused = InsertRaises e \<and> isinstance_PyMongoError e)
           \<or> mongo_insert write_refused = InsertOneResult None"
    by (simp add: write_refused_def sample_env_def)
  have b: "(\<exists>e. mongo_insert write_without_id = InsertRaises e \<and> isinstance_PyMongoError e)
           \<or> mongo_insert write_without_id = InsertOneResult None"
    by (simp add: write_without_id_def sample_env_def)
  have c: "collection ready" "emails ready = []"
    by (simp_all add: ready_def)
  show ?thesis
    using store_failure_gives_500_without_email [OF sample_valid(1) c(1) a]
      store_failure_gives_500_without_email [OF sample_valid(3) c(1) b] c(2)
    by simp
qed

text \<open>
  Claim C2. For a valid submission whose insert succeeds, when no email credential is
  configured the endpoint returns the success response with \<^verbatim>\<open>email_sent\<close> false; the
  record is stored, and the state changes by the insert alone: the notifier returns
  \<^verbatim>\<open>False\<close> at once, leaving any state as it was, so the provider is not contacted.
\<close>

theorem unconfigured_notifier_reports_false:
  assumes "validate d = Inr ()" and "collection w" and "\<not> truthy (RESEND_API_KEY env)"
    and "mongo_insert env = InsertOneResult (Some oid)"
  shows "submit env d w
           = (Inr \<lparr>message = success_message d, request_id = PyStr (str_UUID (uuid4 env)),
                   email_sent = False\<rparr>,
              w\<lparr>insert_calls := insert_calls w @ [record_of env d],
                stored := stored w @ [record_of env d]\<rparr>)
         \<and> send_email env d v = (Inr False, v)"
  using assms by (simp add: submit_eq insert_one_returns send_email_unconfigured)

theorem unconfigured_notifier_reports_false_witness:
  "submit unconfigured (Project sample_project) ready
     = (Inr \<lparr>message =
               ''Project request submitted successfully. Muhammad Ahmad will contact you soon!'',
             request_id = PyStr (str_UUID (uuid4 unconfigured)), email_sent = False\<rparr>,
        ready\<lparr>insert_calls := [record_of unconfigured (Project sample_project)],
               stored := [record_of unconfigured (Project sample_project)]\<rparr>)
   \<and> send_email unconfigured (Project sample_project) ready = (Inr False, ready)"
proof -
  have k: "\<not> truthy (RESEND_API_KEY unconfigured)"
    and i: "mongo_insert unconfigured = InsertOneResult (Some 1)"
    by (simp_all add: unconfigured_def sample_env_def)
  have c: "collection ready" "insert_calls ready = []" "stored ready = []"
    by (simp_all add: ready_def)
  show ?thesis
    using unconfigured_notifier_reports_false [OF sample_valid(3) c(1) k i, of ready] c(2,3)
    by simp
qed

text \<open>
  Claim C1, as the code has it. For a valid submission whose insert succeeds, when a
  credential is configured and the provider faults on each of the notifier's three
  attempts, the retry budget is exhausted, the notifier raises \<open>RetryError\<close>, and the
  endpoint answers with the generic 500; the record stays stored, three emails were handed
  to the provider and two waits happened.
\<close>

theorem notifier_exhaustion_gives_generic_500:
  assumes "validate d = Inr ()" and "collection w" and "truthy (RESEND_API_KEY env)"
    and "mongo_insert env = InsertOneResult (Some oid)"
    and "\<forall>i<3. \<exists>e. resend_send env (length (emails w) + i) = SendRaises e"
  shows "fst (submit env d w) = Inl (HTTPException 500 generic_error)
         \<and> stored (snd (submit env d w)) = stored w @ [record_of env d]
         \<and> length (emails (snd (submit env d w))) = length (emails w) + 3
         \<and> length (sleeps (snd (submit env d w))) = length (sleeps w) + 2"
proof -
  let ?w1 = "w\<lparr>insert_calls := insert_calls w @ [record_of env d],
               stored := stored w @ [record_of env d]\<rparr>"
  have "\<forall>i<3. \<exists>e. resend_send env (length (emails ?w1) + i) = SendRaises e"
    using assms(5) by simp
  from send_email_exhausted [OF assms(3) this, of d]
  obtain e w2 where s: "send_email env d ?w1 = (Inl (RetryError e), w2)"
    and w2: "length (emails w2) = length (emails ?w1) + 3" "sleeps w2 = sleeps ?w1 @ [2, 2]"
      "stored w2 = stored ?w1"
    by blast
  show ?thesis
    using assms(1,2,4) s w2
    by (simp add: submit_eq insert_one_returns except_clauses_def generic_error_def)
qed

theorem notifier_exhaustion_gives_generic_500_witness:
  "fst (submit provider_down (Hiring sample_hiring) ready) = Inl (HTTPException 500 generic_error)
   \<and> stored (snd (submit provider_down (Hiring sample_hiring) ready))
       = [record_of provider_down (Hiring sample_hiring)]
   \<and> length (emails (snd (submit provider_down (Hiring sample_hiring) ready))) = 3
   \<and> length (sleeps (snd (submit provider_down (Hiring sample_hiring) ready))) = 2"
proof -
  have k: "truthy (RESEND_API_KEY provider_down)"
    and i: "mongo_insert provider_down = InsertOneResult (Some 1)"
    and f: "\<forall>i<3. \<exists>e. resend_send provider_down (length (emails ready) + i) = SendRaises e"
    by (simp_all add: provider_down_def sample_env_def ascii_def)
  have c: "collection ready" "emails ready = []" "stored ready = []" "sleeps ready = []"
    by (simp_all add: ready_def)
  show ?thesis
    using notifier_exhaustion_gives_generic_500 [OF sample_valid(2) c(1) k i f] c(2,3,4)
    by simp
qed

text \<open>
  The claim as the specification words it (a success response with \<^verbatim>\<open>email_sent\<close> false)
  fails: a valid contact message, stored successfully, with the provider raising on all
  three attempts, is answered with the generic 500.
\<close>

theorem notifier_exhaustion_counterexample:
  "validate_contact_details sample_contact = Inr ()
   \<and> collection ready
   \<and> mongo_insert provider_down = InsertOneResult (Some 1)
   \<and> resend_send provider_down 0 = SendRaises (Exception ''provider down'')
   \<and> resend_send provider_down 1 = SendRaises (Exception ''provider down'')
   \<and> resend_send provider_down 2 = SendRaises (Exception ''provider down'')
   \<and> stored (snd (submit_contact_request provider_down sample_contact ready))
       = [record_of provider_down (Contact sample_contact)]
   \<and> fst (submit_contact_request provider_down sample_contact ready)
       = Inl (HTTPException 500
           ''An error occurred. Please try again or contact Muhammad directly at ahmadrajpootr1@gmail.com.'')"
proof -
  have k: "truthy (RESEND_API_KEY provider_down)"
    and i: "mongo_insert provider_down = InsertOneResult (Some 1)"
    and f: "\<forall>i<3. \<exists>e. resend_send provider_down (length (emails ready) + i) = SendRaises e"
    and r: "resend_send provider_down n = SendRaises (Exception ''provider down'')" for n
    by (simp_all add: provider_down_def sample_env_def ascii_def)
  have c: "collection ready" "emails ready = []" "stored ready = []" "sleeps ready = []"
    by (simp_all add: ready_def)
  let ?w1 = "ready\<lparr>insert_calls :=
                      insert_calls ready @ [record_of provider_down (Contact sample_contact)],
                    stored := stored ready @ [record_of provider_down (Contact sample_contact)]\<rparr>"
  have "\<forall>i<3. \<exists>e. resend_send provider_down (length (emails ?w1) + i) = SendRaises e"
    using f by simp
  from send_email_exhausted [OF k this, of "Contact sample_contact"]
  obtain e w2 where s: "send_email provider_down (Contact sample_contact) ?w1
      = (Inl (RetryError e), w2)" and w2: "stored w2 = stored ?w1"
    by blast
  have "submit provider_down (Contact sample_contact) ready
      = (Inl (HTTPException 500
           ''An error occurred. Please try again or contact Muhammad directly at ahmadrajpootr1@gmail.com.''), w2)"
    using sample_valid(1) c(1) i s
    by (simp add: submit_eq insert_one_returns except_clauses_def del: submit.simps)
  then show ?thesis
    using sample_valid(1) c i r w2 by simp
qed


text \<open>
  Claim C8. Whatever a request adds to the store, and whatever it hands to \<^verbatim>\<open>insert_one\<close>,
  has the three system fields set and not empty: \<^verbatim>\<open>request_id\<close> is the string of the UUID
  generated for this request, \<^verbatim>\<open>created_at\<close> is the UTC clock reading taken for this
  request, and \<^verbatim>\<open>type\<close> is the tag of the submission's kind, one of
  \<^verbatim>\<open>project_request\<close>, \<^verbatim>\<open>hiring_request\<close> and \<^verbatim>\<open>contact_request\<close>.
\<close>

theorem persisted_record_has_system_fields:
  "(\<exists>new. stored (snd (submit env d w)) = stored w @ new
        \<and> (\<forall>doc\<in>set new. system_fields_set env d doc))
   \<and> (\<exists>handed. insert_calls (snd (submit env d w)) = insert_calls w @ handed
        \<and> (\<forall>doc\<in>set handed. system_fields_set env d doc))"
proof
  from submit_stored [of env d w]
  show "\<exists>new. stored (snd (submit env d w)) = stored w @ new
        \<and> (\<forall>doc\<in>set new. system_fields_set env d doc)"
  proof
    assume "stored (snd (submit env d w)) = stored w"
    then have "stored (snd (submit env d w)) = stored w @ []
        \<and> (\<forall>doc\<in>set []. system_fields_set env d doc)"
      by simp
    then show ?thesis by blast
  next
    assume "stored (snd (submit env d w)) = stored w @ [record_of env d]"
    then have "stored (snd (submit env d w)) = stored w @ [record_of env d]
        \<and> (\<forall>doc\<in>set [record_of env d]. system_fields_set env d doc)"
      by (simp add: record_of_system_fields)
    then show ?thesis by blast
  qed
next
  from submit_insert_calls [of env d w]
  show "\<exists>handed. insert_calls (snd (submit env d w)) = insert_calls w @ handed
        \<and> (\<forall>doc\<in>set handed. system_fields_set env d doc)"
  proof
    assume "insert_calls (snd (submit env d w)) = insert_calls w"
    then have "insert_calls (snd (submit env d w)) = insert_calls w @ []
        \<and> (\<forall>doc\<in>set []. system_fields_set env d doc)"
      by simp
    then show ?thesis by blast
  next
    assume "insert_calls (snd (submit env d w)) = insert_calls w @ [record_of env d]"
    then have "insert_calls (snd (submit env d w)) = insert_calls w @ [record_of env d]
        \<and> (\<forall>doc\<in>set [record_of env d]. system_fields_set env d doc)"
      by (simp add: record_of_system_fields)
    then show ?thesis by blast
  qed
qed

theorem persisted_record_has_system_fields_witness:
  "\<exists>doc. stored (snd (submit sample_env (Hiring sample_hiring) ready)) = [doc]
      \<and> doc ''request_id'' = Some (PyStr (ascii ''123e4567-e89b-42d3-a456-426614174000''))
      \<and> doc ''created_at''
          = Some (PyDatetime \<lparr>year = 2024, month = 5, day = 17, hour = 9, minute = 30,
                              second = 0, microsecond = 0, tzinfo = Some utc\<rparr>)
      \<and> doc ''type'' = Some (PyStr (ascii ''hiring_request''))"
proof -
  from persisted_record_has_system_fields [of sample_env "Hiring sample_hiring" ready]
  obtain new where
    n: "stored (snd (submit sample_env (Hiring sample_hiring) ready)) = stored ready @ new"
      "\<forall>doc\<in>set new. system_fields_set sample_env (Hiring sample_hiring) doc"
    by blast
  have "stored (snd (submit sample_env (Hiring sample_hiring) ready))
      = [record_of sample_env (Hiring sample_hiring)]"
    using submit_sample_env [OF sample_valid(2)] by simp
  with n have "new = [record_of sample_env (Hiring sample_hiring)]"
    by (simp add: ready_def)
  with n have "stored (snd (submit sample_env (Hiring sample_hiring) ready))
        = [record_of sample_env (Hiring sample_hiring)]
      \<and> system_fields_set sample_env (Hiring sample_hiring)
          (record_of sample_env (Hiring sample_hiring))"
    by (simp add: ready_def)
  moreover have "uuid4 sample_env = 0x123e4567e89b42d3a456426614174000"
    and "datetime_now utc (clock sample_env)
      = \<lparr>year = 2024, month = 5, day = 17, hour = 9, minute = 30,
                              second = 0, microsecond = 0, tzinfo = Some utc\<rparr>"
    by (simp_all add: sample_env_def datetime_now_def)
  ultimately show ?thesis
    by (simp add: system_fields_set_def sample_uuid)
qed

text \<open>
  Claim C9. When an endpoint returns the success response, the \<^verbatim>\<open>request_id\<close> of the
  response is the \<^verbatim>\<open>request_id\<close> field of the record this request stored: the string of
  the one UUID generated for the request.
\<close>

theorem response_request_id_is_persisted_request_id:
  "fst (submit env d w) = Inr r \<longrightarrow>
     request_id r = PyStr (str_UUID (uuid4 env))
     \<and> (\<exists>doc. stored (snd (submit env d w)) = stored w @ [doc]
           \<and> doc ''request_id'' = Some (request_id r))"
proof
  assume "fst (submit env d w) = Inr r"
  from submit_success_stored [OF this] record_of_fields(1) [of env d]
  show "request_id r = PyStr (str_UUID (uuid4 env))
     \<and> (\<exists>doc. stored (snd (submit env d w)) = stored w @ [doc]
           \<and> doc ''request_id'' = Some (request_id r))"
    by simp
qed

theorem response_request_id_is_persisted_request_id_witness:
  "fst (submit sample_env (Contact sample_contact) ready)
     = Inr \<lparr>message = ''Your message has been sent to Muhammad Ahmad. He will contact you soon!'',
            request_id = PyStr (ascii ''123e4567-e89b-42d3-a456-426614174000''),
            email_sent = True\<rparr>
   \<and> (\<exists>doc. stored (snd (submit sample_env (Contact sample_contact) ready)) = [doc]
         \<and> doc ''request_id'' = Some (PyStr (ascii ''123e4567-e89b-42d3-a456-426614174000'')))"
proof -
  have u: "str_UUID (uuid4 sample_env) = ascii ''123e4567-e89b-42d3-a456-426614174000''"
    using sample_uuid by (simp add: sample_env_def)
  have r: "fst (submit sample_env (Contact sample_contact) ready)
     = Inr \<lparr>message = ''Your message has been sent to Muhammad Ahmad. He will contact you soon!'',
            request_id = PyStr (ascii ''123e4567-e89b-42d3-a456-426614174000''),
            email_sent = True\<rparr>"
    using submit_sample_env [OF sample_valid(1)] u by simp
  let ?r = "\<lparr>message = ''Your message has been sent to Muhammad Ahmad. He will contact you soon!'',
            request_id = PyStr (ascii ''123e4567-e89b-42d3-a456-426614174000''),
            email_sent = True\<rparr>"
  from response_request_id_is_persisted_request_id
      [of sample_env "Contact sample_contact" ready ?r] r
  have "\<exists>doc. stored (snd (submit sample_env (Contact sample_contact) ready))
          = stored ready @ [doc] \<and> doc ''request_id'' = Some (request_id ?r)"
    by blast
  then have "\<exists>doc. stored (snd (submit sample_env (Contact sample_contact) ready)) = [doc]
         \<and> doc ''request_id'' = Some (PyStr (ascii ''123e4567-e89b-42d3-a456-426614174000''))"
    by (simp add: ready_def)
  with r show ?thesis by blast
qed

end
